theory Spec2Isabelle
  imports Main "HOL-Library.Word"
begin

section \<open>Translating gRPC errors into HTTP responses (runtime/errors.go)\<close>

text \<open>
  A shallow embedding of \<^verbatim>\<open>runtime/errors.go\<close>: the two translators from a gRPC
  status code to a status token and to an HTTP status, the default error renderer
  \<^verbatim>\<open>DefaultHTTPError\<close> and the plain-text handler \<^verbatim>\<open>DefaultOtherErrorHandler\<close>.
  A function that logs through \<^verbatim>\<open>grpclog.Printf\<close> returns the entries it emitted
  next to its value; a function that acts on the \<^verbatim>\<open>http.ResponseWriter\<close> takes
  the writer's state and returns the new one.
\<close>

subsection \<open>Status codes (package codes) and HTTP status constants (package net/http)\<close>

text \<open>\<^verbatim>\<open>codes.Code\<close> is a \<^verbatim>\<open>uint32\<close>; the 17 named values are 0 to 16.\<close>

type_synonym codes_Code = "32 word"

definition codes_OK :: codes_Code where "codes_OK = 0"
definition codes_Canceled :: codes_Code where "codes_Canceled = 1"
definition codes_Unknown :: codes_Code where "codes_Unknown = 2"
definition codes_InvalidArgument :: codes_Code where "codes_InvalidArgument = 3"
definition codes_DeadlineExceeded :: codes_Code where "codes_DeadlineExceeded = 4"
definition codes_NotFound :: codes_Code where "codes_NotFound = 5"
definition codes_AlreadyExists :: codes_Code where "codes_AlreadyExists = 6"
definition codes_PermissionDenied :: codes_Code where "codes_PermissionDenied = 7"
definition codes_ResourceExhausted :: codes_Code where "codes_ResourceExhausted = 8"
definition codes_FailedPrecondition :: codes_Code where "codes_FailedPrecondition = 9"
definition codes_Aborted :: codes_Code where "codes_Aborted = 10"
definition codes_OutOfRange :: codes_Code where "codes_OutOfRange = 11"
definition codes_Unimplemented :: codes_Code where "codes_Unimplemented = 12"
definition codes_Internal :: codes_Code where "codes_Internal = 13"
definition codes_Unavailable :: codes_Code where "codes_Unavailable = 14"
definition codes_DataLoss :: codes_Code where "codes_DataLoss = 15"
definition codes_Unauthenticated :: codes_Code where "codes_Unauthenticated = 16"

text \<open>Go's \<^verbatim>\<open>int\<close> carries the HTTP status; no arithmetic is done on it.\<close>

definition http_StatusOK :: int where "http_StatusOK = 200"
definition http_StatusBadRequest :: int where "http_StatusBadRequest = 400"
definition http_StatusUnauthorized :: int where "http_StatusUnauthorized = 401"
definition http_StatusForbidden :: int where "http_StatusForbidden = 403"
definition http_StatusNotFound :: int where "http_StatusNotFound = 404"
definition http_StatusRequestTimeout :: int where "http_StatusRequestTimeout = 408"
definition http_StatusConflict :: int where "http_StatusConflict = 409"
definition http_StatusPreconditionFailed :: int where "http_StatusPreconditionFailed = 412"
definition http_StatusInternalServerError :: int where "http_StatusInternalServerError = 500"
definition http_StatusNotImplemented :: int where "http_StatusNotImplemented = 501"
definition http_StatusServiceUnavailable :: int where "http_StatusServiceUnavailable = 503"

subsection \<open>The status tokens (the const block of errors.go)\<close>

definition OK :: string where "OK = ''OK''"
definition InvalidArgument :: string where "InvalidArgument = ''INVALID_ARGUMENT''"
definition FailedPrecondition :: string where "FailedPrecondition = ''FAILED_PRECONDITION''"
definition OutOfRange :: string where "OutOfRange = ''OUT_OF_RANGE''"
definition Unauthenticated :: string where "Unauthenticated = ''UNAUTHENTICATED''"
definition PermissionDenied :: string where "PermissionDenied = ''PERMISSION_DENIED''"
definition NotFound :: string where "NotFound = ''NOT_FOUND''"
definition Aborted :: string where "Aborted = ''ABORTED''"
definition AlreadyExists :: string where "AlreadyExists = ''ALREADY_EXISTS''"
definition ResourceExhausted :: string where "ResourceExhausted = ''RESOURCE_EXHAUSTED''"
definition Canceled :: string where "Canceled = ''CANCELLED''"
definition DataLoss :: string where "DataLoss = ''DATA_LOSS''"
definition Unknown :: string where "Unknown = ''UNKNOWN''"
definition Internal :: string where "Internal = ''INTERNAL''"
definition NotImplemented :: string where "NotImplemented = ''NOT_IMPLEMENTED''"
definition Unavailable :: string where "Unavailable = ''UNAVAILABLE''"
definition DeadlineExceeded :: string where "DeadlineExceeded = ''DEADLINE_EXCEEDED''"

subsection \<open>The error envelope and the diagnostics\<close>

text \<open>\<^verbatim>\<open>google_protobuf.Any\<close>: a type URL and the encoded payload.\<close>

record Any =
  TypeUrl :: string
  Value :: string

text \<open>
  \<^verbatim>\<open>errorInfo\<close> and \<^verbatim>\<open>errorBody\<close>. \<^verbatim>\<open>Code\<close> is an \<^verbatim>\<open>int32\<close>
  (read it with \<open>sint\<close>); the pointer \<^verbatim>\<open>Error\<close> is never nil where
  the renderer builds the body.
\<close>

record errorInfo =
  Code :: "32 word"
  Message :: string
  Status :: string
  Details :: "Any list"

record errorBody =
  Error :: errorInfo

text \<open>
  One entry per \<^verbatim>\<open>grpclog.Printf\<close> call of the file, holding the arguments of
  its format string.
\<close>

datatype log_entry =
    UnknownCode codes_Code
  | MarshalFailed errorBody string
  | WriteFailed string
  | NoServerMetadata

subsection \<open>The Status Translator\<close>

text \<open>
  The \<^verbatim>\<open>switch\<close> of \<^verbatim>\<open>HTTPStatusStringFromCode\<close>, case by case in the source's
  order; falling out of the switch logs the code and returns \<^verbatim>\<open>Internal\<close>.
\<close>

definition HTTPStatusStringFromCode :: "codes_Code \<Rightarrow> string \<times> log_entry list" where
  "HTTPStatusStringFromCode code =
    (if code = codes_OK then (OK, [])
     else if code = codes_Canceled then (Canceled, [])
     else if code = codes_Unknown then (Unknown, [])
     else if code = codes_InvalidArgument then (InvalidArgument, [])
     else if code = codes_DeadlineExceeded then (DeadlineExceeded, [])
     else if code = codes_NotFound then (NotFound, [])
     else if code = codes_AlreadyExists then (AlreadyExists, [])
     else if code = codes_PermissionDenied then (PermissionDenied, [])
     else if code = codes_Unauthenticated then (Unauthenticated, [])
     else if code = codes_ResourceExhausted then (ResourceExhausted, [])
     else if code = codes_FailedPrecondition then (FailedPrecondition, [])
     else if code = codes_Aborted then (Aborted, [])
     else if code = codes_OutOfRange then (OutOfRange, [])
     else if code = codes_Unimplemented then (NotImplemented, [])
     else if code = codes_Internal then (Internal, [])
     else if code = codes_Unavailable then (Unavailable, [])
     else if code = codes_DataLoss then (DataLoss, [])
     else (Internal, [UnknownCode code]))"

definition HTTPStatusFromCode :: "codes_Code \<Rightarrow> int \<times> log_entry list" where
  "HTTPStatusFromCode code =
    (if code = codes_OK then (http_StatusOK, [])
     else if code = codes_Canceled then (http_StatusRequestTimeout, [])
     else if code = codes_Unknown then (http_StatusInternalServerError, [])
     else if code = codes_InvalidArgument then (http_StatusBadRequest, [])
     else if code = codes_DeadlineExceeded then (http_StatusRequestTimeout, [])
     else if code = codes_NotFound then (http_StatusNotFound, [])
     else if code = codes_AlreadyExists then (http_StatusConflict, [])
     else if code = codes_PermissionDenied then (http_StatusForbidden, [])
     else if code = codes_Unauthenticated then (http_StatusUnauthorized, [])
     else if code = codes_ResourceExhausted then (http_StatusForbidden, [])
     else if code = codes_FailedPrecondition then (http_StatusPreconditionFailed, [])
     else if code = codes_Aborted then (http_StatusConflict, [])
     else if code = codes_OutOfRange then (http_StatusBadRequest, [])
     else if code = codes_Unimplemented then (http_StatusNotImplemented, [])
     else if code = codes_Internal then (http_StatusInternalServerError, [])
     else if code = codes_Unavailable then (http_StatusServiceUnavailable, [])
     else if code = codes_DataLoss then (http_StatusInternalServerError, [])
     else (http_StatusInternalServerError, [UnknownCode code]))"

subsection \<open>The response writer (net/http)\<close>

text \<open>
  \<^verbatim>\<open>http.ResponseWriter\<close> is an interface, so the writer is modelled by what the
  code can do to it: the header map returned by \<^verbatim>\<open>w.Header()\<close>
  (\<^verbatim>\<open>http.Header\<close>, a \<^verbatim>\<open>map[string][]string\<close>), and the calls received so
  far, in order. \<^verbatim>\<open>Write\<close> may return an error, which \<open>write_error\<close> decides
  from the bytes; the code only logs it. What an implementation of the interface does
  with a call (such as rejecting a status below 100) is outside the model.
\<close>

datatype call =
    HeaderDel string
  | HeaderSet string string
  | HeaderAdd string string
  | CallWriteHeader int
  | CallWrite string

record ResponseWriter =
  Header :: "string \<rightharpoonup> string list"
  calls :: "call list"
  write_error :: "string \<Rightarrow> string option"

text \<open>
  \<^verbatim>\<open>Header.Del\<close>, \<^verbatim>\<open>Header.Set\<close> and \<^verbatim>\<open>Header.Add\<close>. The keys that
  errors.go passes (\<^verbatim>\<open>Trailer\<close>, \<^verbatim>\<open>Content-Type\<close>) are in canonical MIME form
  already, so the canonicalisation of the key is the identity on them.
\<close>

definition Header_Del :: "string \<Rightarrow> ResponseWriter \<Rightarrow> ResponseWriter" where
  "Header_Del k w = w\<lparr>Header := (Header w)(k := None), calls := calls w @ [HeaderDel k]\<rparr>"

definition Header_Set :: "string \<Rightarrow> string \<Rightarrow> ResponseWriter \<Rightarrow> ResponseWriter" where
  "Header_Set k v w = w\<lparr>Header := (Header w)(k \<mapsto> [v]), calls := calls w @ [HeaderSet k v]\<rparr>"

definition Header_Add :: "string \<Rightarrow> string \<Rightarrow> ResponseWriter \<Rightarrow> ResponseWriter" where
  "Header_Add k v w =
     w\<lparr>Header := (Header w)(k \<mapsto> (case Header w k of None \<Rightarrow> [v] | Some vs \<Rightarrow> vs @ [v])),
       calls := calls w @ [HeaderAdd k v]\<rparr>"

definition WriteHeader :: "int \<Rightarrow> ResponseWriter \<Rightarrow> ResponseWriter" where
  "WriteHeader statusCode w = w\<lparr>calls := calls w @ [CallWriteHeader statusCode]\<rparr>"

text \<open>\<^verbatim>\<open>w.Write(buf)\<close> and \<^verbatim>\<open>io.WriteString(w, s)\<close>: one write, and its error.\<close>

definition Write :: "string \<Rightarrow> ResponseWriter \<Rightarrow> ResponseWriter \<times> string option" where
  "Write buf w = (w\<lparr>calls := calls w @ [CallWrite buf]\<rparr>, write_error w buf)"

text \<open>
  \<^verbatim>\<open>http.Error\<close> of net/http: it sets the two headers, writes the status, and prints
  the message followed by a newline (\<^verbatim>\<open>fmt.Fprintln\<close>), dropping the write's error.
\<close>

definition http_Error :: "ResponseWriter \<Rightarrow> string \<Rightarrow> int \<Rightarrow> ResponseWriter" where
  "http_Error w error code =
    (let w1 = Header_Set ''Content-Type'' ''text/plain; charset=utf-8'' w;
         w2 = Header_Set ''X-Content-Type-Options'' ''nosniff'' w1;
         w3 = WriteHeader code w2
     in fst (Write (error @ [CHR 0x0A]) w3))"

subsection \<open>Collaborators: status, error, marshaler, request, metadata\<close>

text \<open>
  \<^verbatim>\<open>*status.Status\<close> with its proto \<^verbatim>\<open>spb.Status\<close> (\<^verbatim>\<open>s.Proto()\<close>): the
  \<^verbatim>\<open>int32\<close> code, the message and the details. \<^verbatim>\<open>s.Code()\<close> converts the
  \<^verbatim>\<open>int32\<close> to \<^verbatim>\<open>codes.Code\<close>, which keeps the 32 bits.
\<close>

record status_Status =
  sp_Code :: "32 word"
  sp_Message :: string
  sp_Details :: "Any list"

definition status_New :: "codes_Code \<Rightarrow> string \<Rightarrow> status_Status" where
  "status_New c msg = \<lparr>sp_Code = c, sp_Message = msg, sp_Details = []\<rparr>"

definition Status_Code :: "status_Status \<Rightarrow> codes_Code" where
  "Status_Code s = sp_Code s"

text \<open>
  A (non-nil) \<^verbatim>\<open>error\<close> value, by the two things the renderer asks of it: what
  \<^verbatim>\<open>status.FromError(err)\<close> extracts (\<open>None\<close> when \<^verbatim>\<open>ok\<close> is false) and what
  \<^verbatim>\<open>err.Error()\<close> returns.
\<close>

record error =
  FromError :: "status_Status option"
  ErrorString :: string

text \<open>
  The \<^verbatim>\<open>Marshaler\<close> interface, by the two methods the renderer calls:
  \<^verbatim>\<open>Marshal\<close> returns an error (\<open>Inl\<close>) or the bytes (\<open>Inr\<close>).
\<close>

record Marshaler =
  Marshal :: "errorBody \<Rightarrow> string + string"
  ContentType :: string

text \<open>The \<^verbatim>\<open>*http.Request\<close>, by some of its fields; neither handler reads it.\<close>

record Request =
  Method :: string
  RequestURI :: string
  RequestHeader :: "(string \<times> string list) list"
  RequestBody :: string

text \<open>
  Modelled from the spec: the \<^verbatim>\<open>ServerMetadata\<close> type, which is declared outside
  errors.go. The spec's data model: a carrier of two ordered sets of key/value pairs,
  one to surface as response headers, one as trailers.
\<close>

record ServerMetadata =
  HeaderMD :: "(string \<times> string list) list"
  TrailerMD :: "(string \<times> string list) list"

text \<open>The request context, by the one thing the renderer looks up in it.\<close>

record Context =
  serverMetadata :: "ServerMetadata option"

text \<open>
  Modelled from the spec: \<^verbatim>\<open>ServerMetadataFromContext\<close>, which is defined outside
  errors.go. The spec: a lookup keyed by the request's context, whose absence is
  legal. When nothing is found the Go call yields the zero \<^verbatim>\<open>ServerMetadata\<close>
  (both sets empty) and \<^verbatim>\<open>ok = false\<close>.
\<close>

definition ServerMetadataFromContext :: "Context \<Rightarrow> ServerMetadata \<times> bool" where
  "ServerMetadataFromContext ctx =
    (case serverMetadata ctx of
       None \<Rightarrow> (\<lparr>HeaderMD = [], TrailerMD = []\<rparr>, False)
     | Some md \<Rightarrow> (md, True))"

text \<open>
  Modelled from the spec: \<^verbatim>\<open>handleForwardResponseServerMetadata\<close>, which is defined
  outside errors.go. The spec: copy the pending header entries of the metadata onto
  the response header set.
\<close>

definition handleForwardResponseServerMetadata ::
    "ResponseWriter \<Rightarrow> 'mux \<Rightarrow> ServerMetadata \<Rightarrow> ResponseWriter" where
  "handleForwardResponseServerMetadata w mux md =
     fold (\<lambda>(k, vs) w'. fold (Header_Add k) vs w') (HeaderMD md) w"

text \<open>
  Modelled from the spec: \<^verbatim>\<open>handleForwardResponseTrailerHeader\<close>, which is defined
  outside errors.go. The spec: declare the trailer names via the Trailer header.
\<close>

definition handleForwardResponseTrailerHeader ::
    "ResponseWriter \<Rightarrow> ServerMetadata \<Rightarrow> ResponseWriter" where
  "handleForwardResponseTrailerHeader w md =
     fold (\<lambda>(k, vs) w'. Header_Add ''Trailer'' k w') (TrailerMD md) w"

text \<open>
  Modelled from the spec: \<^verbatim>\<open>handleForwardResponseTrailer\<close>, which is defined
  outside errors.go. The spec: copy the pending trailer entries onto the response
  trailer set; with net/http these are header entries added after the body.
\<close>

definition handleForwardResponseTrailer ::
    "ResponseWriter \<Rightarrow> ServerMetadata \<Rightarrow> ResponseWriter" where
  "handleForwardResponseTrailer w md =
     fold (\<lambda>(k, vs) w'. fold (Header_Add k) vs w') (TrailerMD md) w"

subsection \<open>The Error Response Renderer\<close>

definition fallback :: string where
  "fallback = ''{\"error\": \"failed to marshal error message\"}''"

text \<open>
  Lines 198 to 210 of \<^verbatim>\<open>DefaultHTTPError\<close>: the status of the error, or a new
  \<^verbatim>\<open>Unknown\<close> status with the error's text, and the envelope built from it,
  together with what \<^verbatim>\<open>HTTPStatusStringFromCode\<close> logged.
\<close>

definition DefaultHTTPError_body :: "error \<Rightarrow> errorBody \<times> log_entry list" where
  "DefaultHTTPError_body err =
    (let s = (case FromError err of
                Some s \<Rightarrow> s
              | None \<Rightarrow> status_New codes_Unknown (ErrorString err));
         sp = s;
         (token, logged) = HTTPStatusStringFromCode (Status_Code s)
     in (\<lparr>Error = \<lparr>Code = sp_Code sp, Message = sp_Message sp, Status = token,
                    Details = sp_Details sp\<rparr>\<rparr>,
         logged))"

text \<open>
  \<^verbatim>\<open>DefaultHTTPError\<close>. The result is the writer after the call and the log
  entries emitted, in order.
\<close>

definition DefaultHTTPError ::
    "Context \<Rightarrow> 'mux \<Rightarrow> Marshaler \<Rightarrow> ResponseWriter \<Rightarrow> Request \<Rightarrow> error
      \<Rightarrow> ResponseWriter \<times> log_entry list" where
  "DefaultHTTPError ctx mux marshaler w r err =
    (let w1 = Header_Del ''Trailer'' w;
         w2 = Header_Set ''Content-Type'' (ContentType marshaler) w1;
         (body, log1) = DefaultHTTPError_body err
     in case Marshal marshaler body of
          Inl merr \<Rightarrow>
            (let log2 = log1 @ [MarshalFailed body merr];
                 w3 = WriteHeader http_StatusInternalServerError w2;
                 (w4, werr) = Write fallback w3
             in (w4, log2 @ (case werr of None \<Rightarrow> [] | Some e \<Rightarrow> [WriteFailed e])))
        | Inr buf \<Rightarrow>
            (let (md, ok) = ServerMetadataFromContext ctx;
                 log2 = log1 @ (if ok then [] else [NoServerMetadata]);
                 w3 = handleForwardResponseServerMetadata w2 mux md;
                 w4 = handleForwardResponseTrailerHeader w3 md;
                 w5 = WriteHeader http_StatusOK w4;
                 (w6, werr) = Write buf w5;
                 log3 = log2 @ (case werr of None \<Rightarrow> [] | Some e \<Rightarrow> [WriteFailed e]);
                 w7 = handleForwardResponseTrailer w6 md
             in (w7, log3)))"

text \<open>\<^verbatim>\<open>DefaultOtherErrorHandler\<close>: a call of \<^verbatim>\<open>http.Error\<close>.\<close>

definition DefaultOtherErrorHandler ::
    "ResponseWriter \<Rightarrow> Request \<Rightarrow> string \<Rightarrow> int \<Rightarrow> ResponseWriter" where
  "DefaultOtherErrorHandler w r msg code = http_Error w msg code"

text \<open>
  The calls a handler made: those of the resulting writer beyond the ones the writer
  had received before.
\<close>

definition new_calls :: "ResponseWriter \<Rightarrow> ResponseWriter \<Rightarrow> call list" where
  "new_calls w w' = drop (length (calls w)) (calls w')"

text \<open>
  What one recorded call does to the header map; \<^verbatim>\<open>WriteHeader\<close> and
  \<^verbatim>\<open>Write\<close> leave the map as it is.
\<close>

fun apply_call :: "call \<Rightarrow> (string \<rightharpoonup> string list) \<Rightarrow> (string \<rightharpoonup> string list)" where
  "apply_call (HeaderDel k) h = h(k := None)"
| "apply_call (HeaderSet k v) h = h(k \<mapsto> [v])"
| "apply_call (HeaderAdd k v) h = h(k \<mapsto> (case h k of None \<Rightarrow> [v] | Some vs \<Rightarrow> vs @ [v]))"
| "apply_call (CallWriteHeader n) h = h"
| "apply_call (CallWrite b) h = h"

fun is_Write :: "call \<Rightarrow> bool" where
  "is_Write (CallWrite b) = True"
| "is_Write c = False"

fun is_WriteHeader :: "call \<Rightarrow> bool" where
  "is_WriteHeader (CallWriteHeader n) = True"
| "is_WriteHeader c = False"

fun is_Header_op :: "call \<Rightarrow> bool" where
  "is_Header_op (CallWriteHeader n) = False"
| "is_Header_op (CallWrite b) = False"
| "is_Header_op c = True"

text \<open>
  The \<^verbatim>\<open>Header.Add\<close> calls that copying a set of entries makes, one per value,
  and those that declaring the names of a set of entries under \<^verbatim>\<open>Trailer\<close> makes,
  one per name.
\<close>

definition added :: "(string \<times> string list) list \<Rightarrow> call list" where
  "added kvs = concat (map (\<lambda>(k, vs). map (HeaderAdd k) vs) kvs)"

definition declared :: "(string \<times> string list) list \<Rightarrow> call list" where
  "declared kvs = map (\<lambda>(k, vs). HeaderAdd ''Trailer'' k) kvs"

section \<open>Properties\<close>

lemmas codes_defs =
  codes_OK_def codes_Canceled_def codes_Unknown_def codes_InvalidArgument_def
  codes_DeadlineExceeded_def codes_NotFound_def codes_AlreadyExists_def
  codes_PermissionDenied_def codes_ResourceExhausted_def codes_FailedPrecondition_def
  codes_Aborted_def codes_OutOfRange_def codes_Unimplemented_def codes_Internal_def
  codes_Unavailable_def codes_DataLoss_def codes_Unauthenticated_def

lemmas http_defs =
  http_StatusOK_def http_StatusBadRequest_def http_StatusUnauthorized_def
  http_StatusForbidden_def http_StatusNotFound_def http_StatusRequestTimeout_def
  http_StatusConflict_def http_StatusPreconditionFailed_def
  http_StatusInternalServerError_def http_StatusNotImplemented_def
  http_StatusServiceUnavailable_def

lemmas token_defs =
  OK_def InvalidArgument_def FailedPrecondition_def OutOfRange_def Unauthenticated_def
  PermissionDenied_def NotFound_def Aborted_def AlreadyExists_def ResourceExhausted_def
  Canceled_def DataLoss_def Unknown_def Internal_def NotImplemented_def Unavailable_def
  DeadlineExceeded_def

subsection \<open>What the renderer does to the writer, path by path\<close>

lemma Header_Add_fold:
  "calls (fold (Header_Add k) vs w) = calls w @ map (HeaderAdd k) vs \<and>
   Header (fold (Header_Add k) vs w) = fold apply_call (map (HeaderAdd k) vs) (Header w) \<and>
   write_error (fold (Header_Add k) vs w) = write_error w"
  by (induction vs arbitrary: w) (simp_all add: Header_Add_def)

lemma copy_entries:
  "calls (fold (\<lambda>(k, vs) w'. fold (Header_Add k) vs w') kvs w) = calls w @ added kvs \<and>
   Header (fold (\<lambda>(k, vs) w'. fold (Header_Add k) vs w') kvs w)
     = fold apply_call (added kvs) (Header w) \<and>
   write_error (fold (\<lambda>(k, vs) w'. fold (Header_Add k) vs w') kvs w) = write_error w"
proof (induction kvs arbitrary: w)
  case Nil
  show ?case by (simp add: added_def)
next
  case (Cons kv kvs)
  obtain k vs where kv: "kv = (k, vs)" by (cases kv)
  show ?case
    using Cons [of "fold (Header_Add k) vs w"] Header_Add_fold [of k vs w]
    by (simp add: kv added_def)
qed

lemma declare_names:
  "calls (fold (\<lambda>(k, vs) w'. Header_Add ''Trailer'' k w') kvs w) = calls w @ declared kvs \<and>
   Header (fold (\<lambda>(k, vs) w'. Header_Add ''Trailer'' k w') kvs w)
     = fold apply_call (declared kvs) (Header w) \<and>
   write_error (fold (\<lambda>(k, vs) w'. Header_Add ''Trailer'' k w') kvs w) = write_error w"
  by (induction kvs arbitrary: w) (auto simp add: Header_Add_def declared_def)

lemma added_Header_ops: "filter (\<lambda>c. \<not> is_Header_op c) (added kvs) = []"
  unfolding added_def by (induction kvs) auto

lemma declared_Header_ops: "filter (\<lambda>c. \<not> is_Header_op c) (declared kvs) = []"
  unfolding declared_def by (induction kvs) auto

text \<open>
  When the envelope is serialized: the two header steps, the forwarded header entries,
  the declared trailer names, the status 200, the body, the trailer entries.
\<close>

lemma success_result:
  assumes "Marshal marshaler (fst (DefaultHTTPError_body err)) = Inr buf"
    and "md = fst (ServerMetadataFromContext ctx)"
    and "cs = [HeaderDel ''Trailer'', HeaderSet ''Content-Type'' (ContentType marshaler)]
           @ added (HeaderMD md) @ declared (TrailerMD md)
           @ [CallWriteHeader 200, CallWrite buf] @ added (TrailerMD md)"
  shows "fst (DefaultHTTPError ctx mux marshaler w r err) =
     w\<lparr>Header := fold apply_call cs (Header w), calls := calls w @ cs\<rparr>"
  using assms
  by (simp add: DefaultHTTPError_def split_beta Let_def copy_entries declare_names
      handleForwardResponseServerMetadata_def handleForwardResponseTrailerHeader_def
      handleForwardResponseTrailer_def WriteHeader_def Write_def Header_Set_def Header_Del_def
      http_StatusOK_def)

text \<open>When the marshaler fails: the two header steps, the status 500, the fallback.\<close>

lemma failure_result:
  assumes "Marshal marshaler (fst (DefaultHTTPError_body err)) = Inl merr"
    and "cs = [HeaderDel ''Trailer'', HeaderSet ''Content-Type'' (ContentType marshaler),
               CallWriteHeader 500, CallWrite fallback]"
  shows "fst (DefaultHTTPError ctx mux marshaler w r err) =
     w\<lparr>Header := fold apply_call cs (Header w), calls := calls w @ cs\<rparr>"
  using assms
  by (simp add: DefaultHTTPError_def split_beta Let_def
      WriteHeader_def Write_def Header_Set_def Header_Del_def
      http_StatusInternalServerError_def)

text \<open>
  What the renderer logs: the entries of the token lookup, then the marshal failure
  or the missing metadata, then the failed write.
\<close>

lemma renderer_log:
  "snd (DefaultHTTPError ctx mux marshaler w r err) =
     snd (DefaultHTTPError_body err) @
     (case Marshal marshaler (fst (DefaultHTTPError_body err)) of
        Inl merr \<Rightarrow>
          MarshalFailed (fst (DefaultHTTPError_body err)) merr #
          (case write_error w fallback of None \<Rightarrow> [] | Some e \<Rightarrow> [WriteFailed e])
      | Inr buf \<Rightarrow>
          (if serverMetadata ctx = None then [NoServerMetadata] else []) @
          (case write_error w buf of None \<Rightarrow> [] | Some e \<Rightarrow> [WriteFailed e]))"
  by (simp add: DefaultHTTPError_def split_beta Let_def copy_entries declare_names
      handleForwardResponseServerMetadata_def handleForwardResponseTrailerHeader_def
      handleForwardResponseTrailer_def WriteHeader_def Write_def Header_Set_def Header_Del_def
      ServerMetadataFromContext_def split: sum.split option.split)

text \<open>The calls other than header operations, on either path.\<close>

lemma renderer_writes:
  "filter (\<lambda>c. \<not> is_Header_op c)
     (new_calls w (fst (DefaultHTTPError ctx mux marshaler w r err))) =
   (case Marshal marshaler (fst (DefaultHTTPError_body err)) of
      Inl merr \<Rightarrow> [CallWriteHeader 500, CallWrite fallback]
    | Inr buf \<Rightarrow> [CallWriteHeader 200, CallWrite buf])"
proof (cases "Marshal marshaler (fst (DefaultHTTPError_body err))")
  case (Inl merr)
  show ?thesis
    using failure_result [OF Inl refl, of ctx mux w r] by (simp add: Inl new_calls_def)
next
  case (Inr buf)
  show ?thesis
    using success_result [OF Inr refl refl, of ctx mux w r]
    by (simp add: Inr new_calls_def added_Header_ops declared_Header_ops)
qed

text \<open>The envelope of lines 198 to 210, field by field.\<close>

lemma body_fields:
  "fst (DefaultHTTPError_body err) =
     (case FromError err of
        Some s \<Rightarrow>
          \<lparr>Error = \<lparr>Code = sp_Code s, Message = sp_Message s,
                     Status = fst (HTTPStatusStringFromCode (sp_Code s)),
                     Details = sp_Details s\<rparr>\<rparr>
      | None \<Rightarrow>
          \<lparr>Error = \<lparr>Code = 2, Message = ErrorString err, Status = ''UNKNOWN'',
                     Details = []\<rparr>\<rparr>)"
  by (simp add: DefaultHTTPError_body_def split_beta Let_def status_New_def Status_Code_def
      HTTPStatusStringFromCode_def codes_defs Unknown_def split: option.split)

lemma body_log_unknown: "FromError err = None \<Longrightarrow> snd (DefaultHTTPError_body err) = []"
  by (simp add: DefaultHTTPError_body_def split_beta Let_def status_New_def Status_Code_def
      HTTPStatusStringFromCode_def codes_defs)

subsection \<open>The claims\<close>

text \<open>
  C1. For each of the 17 defined status codes, \<^verbatim>\<open>HTTPStatusFromCode\<close> returns the
  HTTP status of the mapping table (and logs nothing): OK 200, CANCELLED 408,
  UNKNOWN 500, INVALID_ARGUMENT 400, DEADLINE_EXCEEDED 408, NOT_FOUND 404,
  ALREADY_EXISTS 409, PERMISSION_DENIED 403, UNAUTHENTICATED 401,
  RESOURCE_EXHAUSTED 403, FAILED_PRECONDITION 412, ABORTED 409, OUT_OF_RANGE 400,
  UNIMPLEMENTED 501, INTERNAL 500, UNAVAILABLE 503, DATA_LOSS 500.
\<close>

theorem HTTPStatusFromCode_table:
  "HTTPStatusFromCode codes_OK = (200, []) \<and>
   HTTPStatusFromCode codes_Canceled = (408, []) \<and>
   HTTPStatusFromCode codes_Unknown = (500, []) \<and>
   HTTPStatusFromCode codes_InvalidArgument = (400, []) \<and>
   HTTPStatusFromCode codes_DeadlineExceeded = (408, []) \<and>
   HTTPStatusFromCode codes_NotFound = (404, []) \<and>
   HTTPStatusFromCode codes_AlreadyExists = (409, []) \<and>
   HTTPStatusFromCode codes_PermissionDenied = (403, []) \<and>
   HTTPStatusFromCode codes_Unauthenticated = (401, []) \<and>
   HTTPStatusFromCode codes_ResourceExhausted = (403, []) \<and>
   HTTPStatusFromCode codes_FailedPrecondition = (412, []) \<and>
   HTTPStatusFromCode codes_Aborted = (409, []) \<and>
   HTTPStatusFromCode codes_OutOfRange = (400, []) \<and>
   HTTPStatusFromCode codes_Unimplemented = (501, []) \<and>
   HTTPStatusFromCode codes_Internal = (500, []) \<and>
   HTTPStatusFromCode codes_Unavailable = (503, []) \<and>
   HTTPStatusFromCode codes_DataLoss = (500, [])"
  by (simp add: HTTPStatusFromCode_def codes_defs http_defs)

text \<open>The table read at the numeric values of NOT_FOUND (5) and UNAUTHENTICATED (16).\<close>

theorem HTTPStatusFromCode_table_witness:
  "fst (HTTPStatusFromCode 5) = 404 \<and> fst (HTTPStatusFromCode 16) = 401"
  using HTTPStatusFromCode_table by (simp add: codes_defs)

text \<open>
  C2. Whenever the envelope of the error is serialized, the only status
  \<^verbatim>\<open>DefaultHTTPError\<close> writes is 200, followed by the one write of the serialized
  envelope, whatever status code the error carries. The RPC failure is in the
  envelope that was serialized: its \<^verbatim>\<open>Code\<close> is the code of the RPC status and its
  \<^verbatim>\<open>Status\<close> is the token \<^verbatim>\<open>HTTPStatusStringFromCode\<close> gives for that code
  (\<^verbatim>\<open>Unknown\<close> when the error carries no status), next to the message and the
  details of the status.
\<close>

theorem DefaultHTTPError_writes_200:
  assumes "Marshal marshaler (fst (DefaultHTTPError_body err)) = Inr buf"
  shows "filter (\<lambda>c. \<not> is_Header_op c)
           (new_calls w (fst (DefaultHTTPError ctx mux marshaler w r err)))
         = [CallWriteHeader 200, CallWrite buf] \<and>
         Code (Error (fst (DefaultHTTPError_body err)))
         = (case FromError err of Some s \<Rightarrow> sp_Code s | None \<Rightarrow> codes_Unknown) \<and>
         Status (Error (fst (DefaultHTTPError_body err)))
         = fst (HTTPStatusStringFromCode
                 (case FromError err of Some s \<Rightarrow> sp_Code s | None \<Rightarrow> codes_Unknown)) \<and>
         fst (DefaultHTTPError_body err)
         = (case FromError err of
              Some s \<Rightarrow>
                \<lparr>Error = \<lparr>Code = sp_Code s, Message = sp_Message s,
                           Status = fst (HTTPStatusStringFromCode (sp_Code s)),
                           Details = sp_Details s\<rparr>\<rparr>
            | None \<Rightarrow>
                \<lparr>Error = \<lparr>Code = 2, Message = ErrorString err, Status = ''UNKNOWN'',
                           Details = []\<rparr>\<rparr>)"
proof -
  have "filter (\<lambda>c. \<not> is_Header_op c)
          (new_calls w (fst (DefaultHTTPError ctx mux marshaler w r err)))
        = [CallWriteHeader 200, CallWrite buf]"
    using renderer_writes [of w ctx mux marshaler r err] by (simp add: assms)
  moreover have "Code (Error (fst (DefaultHTTPError_body err)))
        = (case FromError err of Some s \<Rightarrow> sp_Code s | None \<Rightarrow> codes_Unknown)"
    by (simp add: body_fields codes_Unknown_def split: option.split)
  moreover have "Status (Error (fst (DefaultHTTPError_body err)))
        = fst (HTTPStatusStringFromCode
                (case FromError err of Some s \<Rightarrow> sp_Code s | None \<Rightarrow> codes_Unknown))"
    by (simp add: body_fields HTTPStatusStringFromCode_def codes_defs Unknown_def
        split: option.split)
  ultimately show ?thesis
    using body_fields [of err] by simp
qed

text \<open>
  Two errors, one carrying PERMISSION_DENIED (7) with the message "no" and one carrying
  UNAVAILABLE (14), with metadata of one header and one trailer entry, and a marshaler
  that serializes the envelope \<open>{7, "no", "PERMISSION_DENIED"}\<close> only: the status
  written is 200 and the body is that envelope's; for UNAVAILABLE the token of the
  envelope is "UNAVAILABLE".
\<close>

theorem DefaultHTTPError_writes_200_witness:
  "Marshal \<lparr>Marshal = (\<lambda>b. if b = \<lparr>Error = \<lparr>Code = 7, Message = ''no'',
                              Status = ''PERMISSION_DENIED'', Details = []\<rparr>\<rparr>
                            then Inr ''denied'' else Inl ''another envelope''),
            ContentType = ''application/json''\<rparr>
     (fst (DefaultHTTPError_body
        \<lparr>FromError = Some \<lparr>sp_Code = 7, sp_Message = ''no'', sp_Details = []\<rparr>,
         ErrorString = ''rpc error: code = PermissionDenied desc = no''\<rparr>))
   = Inr ''denied'' \<and>
   filter (\<lambda>c. \<not> is_Header_op c)
     (new_calls \<lparr>Header = Map.empty, calls = [], write_error = (\<lambda>b. None)\<rparr>
        (fst (DefaultHTTPError
           \<lparr>serverMetadata = Some \<lparr>HeaderMD = [(''X-Request-Id'', [''7''])],
                                   TrailerMD = [(''X-Checksum'', [''ab''])]\<rparr>\<rparr>
           ()
           \<lparr>Marshal = (\<lambda>b. if b = \<lparr>Error = \<lparr>Code = 7, Message = ''no'',
                              Status = ''PERMISSION_DENIED'', Details = []\<rparr>\<rparr>
                            then Inr ''denied'' else Inl ''another envelope''),
            ContentType = ''application/json''\<rparr>
           \<lparr>Header = Map.empty, calls = [], write_error = (\<lambda>b. None)\<rparr>
           \<lparr>Method = ''GET'', RequestURI = ''/v1/items/1'', RequestHeader = [],
            RequestBody = []\<rparr>
           \<lparr>FromError = Some \<lparr>sp_Code = 7, sp_Message = ''no'', sp_Details = []\<rparr>,
            ErrorString = ''rpc error: code = PermissionDenied desc = no''\<rparr>)))
   = [CallWriteHeader 200, CallWrite ''denied''] \<and>
   Status (Error (fst (DefaultHTTPError_body
        \<lparr>FromError = Some \<lparr>sp_Code = 14, sp_Message = ''down'', sp_Details = []\<rparr>,
         ErrorString = ''rpc error: code = Unavailable desc = down''\<rparr>)))
   = ''UNAVAILABLE''"
proof -
  have h: "Marshal \<lparr>Marshal = (\<lambda>b. if b = \<lparr>Error = \<lparr>Code = 7, Message = ''no'',
                              Status = ''PERMISSION_DENIED'', Details = []\<rparr>\<rparr>
                            then Inr ''denied'' else Inl ''another envelope''),
            ContentType = ''application/json''\<rparr>
     (fst (DefaultHTTPError_body
        \<lparr>FromError = Some \<lparr>sp_Code = 7, sp_Message = ''no'', sp_Details = []\<rparr>,
         ErrorString = ''rpc error: code = PermissionDenied desc = no''\<rparr>))
     = Inr ''denied''"
    by (simp add: DefaultHTTPError_body_def Status_Code_def HTTPStatusStringFromCode_def
        codes_defs PermissionDenied_def)
  have g: "Marshal \<lparr>Marshal = (\<lambda>b. Inr (Status (Error b))), ContentType = []\<rparr>
     (fst (DefaultHTTPError_body
        \<lparr>FromError = Some \<lparr>sp_Code = 14, sp_Message = ''down'', sp_Details = []\<rparr>,
         ErrorString = ''rpc error: code = Unavailable desc = down''\<rparr>))
     = Inr (Status (Error (fst (DefaultHTTPError_body
        \<lparr>FromError = Some \<lparr>sp_Code = 14, sp_Message = ''down'', sp_Details = []\<rparr>,
         ErrorString = ''rpc error: code = Unavailable desc = down''\<rparr>))))"
    by simp
  have t: "fst (HTTPStatusStringFromCode 14) = ''UNAVAILABLE''"
    by (simp add: HTTPStatusStringFromCode_def codes_defs Unavailable_def)
  show ?thesis
    using h t
      DefaultHTTPError_writes_200
      [OF h, of "\<lparr>Header = Map.empty, calls = [], write_error = (\<lambda>b. None)\<rparr>"
         "\<lparr>serverMetadata = Some \<lparr>HeaderMD = [(''X-Request-Id'', [''7''])],
                                    TrailerMD = [(''X-Checksum'', [''ab''])]\<rparr>\<rparr>" "()"
         "\<lparr>Method = ''GET'', RequestURI = ''/v1/items/1'', RequestHeader = [],
           RequestBody = []\<rparr>"]
      DefaultHTTPError_writes_200
      [OF g, of "\<lparr>Header = Map.empty, calls = [], write_error = (\<lambda>b. None)\<rparr>"
         "\<lparr>serverMetadata = None\<rparr>" "()"
         "\<lparr>Method = ''GET'', RequestURI = ''/v1/items/1'', RequestHeader = [],
           RequestBody = []\<rparr>"]
    by simp
qed

text \<open>
  C3. Whenever \<^verbatim>\<open>Marshal\<close> fails, \<^verbatim>\<open>DefaultHTTPError\<close> does four things to the
  writer and no more: it deletes \<^verbatim>\<open>Trailer\<close>, sets \<^verbatim>\<open>Content-Type\<close>, writes the
  status 500 and writes the fixed body once. No metadata is forwarded, whatever the
  context carries, and the header map is changed by the first two steps only.
\<close>

theorem DefaultHTTPError_marshal_failure:
  assumes "Marshal marshaler (fst (DefaultHTTPError_body err)) = Inl merr"
  shows "fst (DefaultHTTPError ctx mux marshaler w r err) =
     w\<lparr>Header := ((Header w)(''Trailer'' := None))
                    (''Content-Type'' \<mapsto> [ContentType marshaler]),
       calls := calls w @
         [HeaderDel ''Trailer'', HeaderSet ''Content-Type'' (ContentType marshaler),
          CallWriteHeader 500,
          CallWrite ''{\"error\": \"failed to marshal error message\"}'']\<rparr>"
  using failure_result [OF assms refl, of ctx mux w r]
  by (simp add: fallback_def)

text \<open>
  A marshaler that always fails, on a writer that had declared a trailer, with metadata
  present in the context: none of it reaches the writer.
\<close>

theorem DefaultHTTPError_marshal_failure_witness:
  "Marshal \<lparr>Marshal = (\<lambda>b. Inl ''cannot marshal''), ContentType = ''application/json''\<rparr>
     (fst (DefaultHTTPError_body \<lparr>FromError = None, ErrorString = ''boom''\<rparr>))
   = Inl ''cannot marshal'' \<and>
   calls (fst (DefaultHTTPError
           \<lparr>serverMetadata = Some \<lparr>HeaderMD = [(''X-Request-Id'', [''7''])],
                                   TrailerMD = [(''X-Checksum'', [''ab''])]\<rparr>\<rparr>
           ()
           \<lparr>Marshal = (\<lambda>b. Inl ''cannot marshal''), ContentType = ''application/json''\<rparr>
           \<lparr>Header = [''Trailer'' \<mapsto> [''X-Old'']], calls = [],
            write_error = (\<lambda>b. None)\<rparr>
           \<lparr>Method = ''GET'', RequestURI = ''/v1/items/1'', RequestHeader = [],
            RequestBody = []\<rparr>
           \<lparr>FromError = None, ErrorString = ''boom''\<rparr>))
   = [HeaderDel ''Trailer'', HeaderSet ''Content-Type'' ''application/json'',
      CallWriteHeader 500, CallWrite ''{\"error\": \"failed to marshal error message\"}'']"
proof -
  have h: "Marshal \<lparr>Marshal = (\<lambda>b. Inl ''cannot marshal''),
                    ContentType = ''application/json''\<rparr>
     (fst (DefaultHTTPError_body \<lparr>FromError = None, ErrorString = ''boom''\<rparr>))
     = Inl ''cannot marshal''"
    by simp
  show ?thesis
    using h DefaultHTTPError_marshal_failure
      [OF h, of "\<lparr>serverMetadata = Some \<lparr>HeaderMD = [(''X-Request-Id'', [''7''])],
                                    TrailerMD = [(''X-Checksum'', [''ab''])]\<rparr>\<rparr>" "()"
         "\<lparr>Header = [''Trailer'' \<mapsto> [''X-Old'']], calls = [], write_error = (\<lambda>b. None)\<rparr>"
         "\<lparr>Method = ''GET'', RequestURI = ''/v1/items/1'', RequestHeader = [],
           RequestBody = []\<rparr>"]
    by simp
qed

text \<open>
  C4. For an error from which no RPC status is extracted, the envelope that
  \<^verbatim>\<open>DefaultHTTPError\<close> builds has the code 2 (\<^verbatim>\<open>Unknown\<close>), the text of the
  error as its message, the token "UNKNOWN" and no details, and this is the envelope
  the renderer hands to the marshaler: when the marshaler serializes it, the renderer
  writes 200 and those bytes; when the marshaler fails on it, the renderer writes 500
  and the fallback, and logs the failure with that envelope. The whole call does what
  it does for an error that carries the status \<^verbatim>\<open>status.New(codes.Unknown, err.Error())\<close>.
\<close>

theorem DefaultHTTPError_unknown_status:
  assumes "FromError err = None"
  shows "fst (DefaultHTTPError_body err) =
           \<lparr>Error = \<lparr>Code = 2, Message = ErrorString err, Status = ''UNKNOWN'',
                      Details = []\<rparr>\<rparr> \<and>
         DefaultHTTPError ctx mux marshaler w r err =
           DefaultHTTPError ctx mux marshaler w r
             (err\<lparr>FromError := Some (status_New codes_Unknown (ErrorString err))\<rparr>) \<and>
         filter (\<lambda>c. \<not> is_Header_op c)
           (new_calls w (fst (DefaultHTTPError ctx mux marshaler w r err))) =
           (case Marshal marshaler
                   \<lparr>Error = \<lparr>Code = 2, Message = ErrorString err, Status = ''UNKNOWN'',
                              Details = []\<rparr>\<rparr> of
              Inl merr \<Rightarrow> [CallWriteHeader 500, CallWrite fallback]
            | Inr buf \<Rightarrow> [CallWriteHeader 200, CallWrite buf]) \<and>
         snd (DefaultHTTPError ctx mux marshaler w r err) =
           (case Marshal marshaler
                   \<lparr>Error = \<lparr>Code = 2, Message = ErrorString err, Status = ''UNKNOWN'',
                              Details = []\<rparr>\<rparr> of
              Inl merr \<Rightarrow>
                MarshalFailed
                  \<lparr>Error = \<lparr>Code = 2, Message = ErrorString err, Status = ''UNKNOWN'',
                             Details = []\<rparr>\<rparr> merr #
                (case write_error w fallback of None \<Rightarrow> [] | Some e \<Rightarrow> [WriteFailed e])
            | Inr buf \<Rightarrow>
                (if serverMetadata ctx = None then [NoServerMetadata] else []) @
                (case write_error w buf of None \<Rightarrow> [] | Some e \<Rightarrow> [WriteFailed e]))"
proof -
  have e: "fst (DefaultHTTPError_body err) =
           \<lparr>Error = \<lparr>Code = 2, Message = ErrorString err, Status = ''UNKNOWN'',
                      Details = []\<rparr>\<rparr>"
    using assms by (simp add: body_fields)
  have same: "DefaultHTTPError ctx mux marshaler w r err =
           DefaultHTTPError ctx mux marshaler w r
             (err\<lparr>FromError := Some (status_New codes_Unknown (ErrorString err))\<rparr>)"
    using assms
    by (simp add: DefaultHTTPError_def DefaultHTTPError_body_def status_New_def
        Status_Code_def HTTPStatusStringFromCode_def codes_defs Unknown_def)
  have writes: "filter (\<lambda>c. \<not> is_Header_op c)
           (new_calls w (fst (DefaultHTTPError ctx mux marshaler w r err))) =
           (case Marshal marshaler
                   \<lparr>Error = \<lparr>Code = 2, Message = ErrorString err, Status = ''UNKNOWN'',
                              Details = []\<rparr>\<rparr> of
              Inl merr \<Rightarrow> [CallWriteHeader 500, CallWrite fallback]
            | Inr buf \<Rightarrow> [CallWriteHeader 200, CallWrite buf])"
    using renderer_writes [of w ctx mux marshaler r err] by (simp add: e)
  have logged: "snd (DefaultHTTPError ctx mux marshaler w r err) =
           (case Marshal marshaler
                   \<lparr>Error = \<lparr>Code = 2, Message = ErrorString err, Status = ''UNKNOWN'',
                              Details = []\<rparr>\<rparr> of
              Inl merr \<Rightarrow>
                MarshalFailed
                  \<lparr>Error = \<lparr>Code = 2, Message = ErrorString err, Status = ''UNKNOWN'',
                             Details = []\<rparr>\<rparr> merr #
                (case write_error w fallback of None \<Rightarrow> [] | Some e \<Rightarrow> [WriteFailed e])
            | Inr buf \<Rightarrow>
                (if serverMetadata ctx = None then [NoServerMetadata] else []) @
                (case write_error w buf of None \<Rightarrow> [] | Some e \<Rightarrow> [WriteFailed e]))"
    using renderer_log [of ctx mux marshaler w r err, unfolded e] body_log_unknown [OF assms]
    by simp
  show ?thesis
    using e same writes logged by blast
qed

text \<open>
  The error of the spec's example: no status, text "boom", rendered with a marshaler
  that serializes the envelope \<open>{2, "boom", "UNKNOWN"}\<close> and fails on any other.
\<close>

theorem DefaultHTTPError_unknown_status_witness:
  "FromError \<lparr>FromError = None, ErrorString = ''boom''\<rparr> = None \<and>
   fst (DefaultHTTPError_body \<lparr>FromError = None, ErrorString = ''boom''\<rparr>) =
     \<lparr>Error = \<lparr>Code = 2, Message = ''boom'', Status = ''UNKNOWN'', Details = []\<rparr>\<rparr> \<and>
   filter (\<lambda>c. \<not> is_Header_op c)
     (calls (fst (DefaultHTTPError \<lparr>serverMetadata = None\<rparr> ()
        \<lparr>Marshal = (\<lambda>b. if b = \<lparr>Error = \<lparr>Code = 2, Message = ''boom'',
                           Status = ''UNKNOWN'', Details = []\<rparr>\<rparr>
                         then Inr ''unknown: boom'' else Inl ''another envelope''),
         ContentType = ''application/json''\<rparr>
        \<lparr>Header = Map.empty, calls = [], write_error = (\<lambda>b. None)\<rparr>
        \<lparr>Method = ''GET'', RequestURI = ''/v1/items/1'', RequestHeader = [],
         RequestBody = []\<rparr>
        \<lparr>FromError = None, ErrorString = ''boom''\<rparr>)))
   = [CallWriteHeader 200, CallWrite ''unknown: boom''] \<and>
   snd (DefaultHTTPError \<lparr>serverMetadata = None\<rparr> ()
        \<lparr>Marshal = (\<lambda>b. if b = \<lparr>Error = \<lparr>Code = 2, Message = ''boom'',
                           Status = ''UNKNOWN'', Details = []\<rparr>\<rparr>
                         then Inr ''unknown: boom'' else Inl ''another envelope''),
         ContentType = ''application/json''\<rparr>
        \<lparr>Header = Map.empty, calls = [], write_error = (\<lambda>b. None)\<rparr>
        \<lparr>Method = ''GET'', RequestURI = ''/v1/items/1'', RequestHeader = [],
         RequestBody = []\<rparr>
        \<lparr>FromError = None, ErrorString = ''boom''\<rparr>)
   = [NoServerMetadata]"
proof -
  have h: "FromError \<lparr>FromError = None, ErrorString = ''boom''\<rparr> = None"
    by simp
  note t = DefaultHTTPError_unknown_status
      [OF h, of "\<lparr>serverMetadata = None\<rparr>" "()"
         "\<lparr>Marshal = (\<lambda>b. if b = \<lparr>Error = \<lparr>Code = 2, Message = ''boom'',
                           Status = ''UNKNOWN'', Details = []\<rparr>\<rparr>
                         then Inr ''unknown: boom'' else Inl ''another envelope''),
           ContentType = ''application/json''\<rparr>"
         "\<lparr>Header = Map.empty, calls = [], write_error = (\<lambda>b. None)\<rparr>"
         "\<lparr>Method = ''GET'', RequestURI = ''/v1/items/1'', RequestHeader = [],
           RequestBody = []\<rparr>"]
  show ?thesis
    using h t [THEN conjunct1] t [THEN conjunct2, THEN conjunct2, THEN conjunct1]
      t [THEN conjunct2, THEN conjunct2, THEN conjunct2]
    by (simp add: new_calls_def)
qed

text \<open>
  C5. For each of the 17 defined status codes, \<^verbatim>\<open>HTTPStatusStringFromCode\<close> returns
  the name of the code in the enumeration as the token (and logs nothing), except that
  UNIMPLEMENTED gives "NOT_IMPLEMENTED"; CANCELLED gives "CANCELLED", with two L.
\<close>

theorem HTTPStatusStringFromCode_table:
  "HTTPStatusStringFromCode codes_OK = (''OK'', []) \<and>
   HTTPStatusStringFromCode codes_Canceled = (''CANCELLED'', []) \<and>
   HTTPStatusStringFromCode codes_Unknown = (''UNKNOWN'', []) \<and>
   HTTPStatusStringFromCode codes_InvalidArgument = (''INVALID_ARGUMENT'', []) \<and>
   HTTPStatusStringFromCode codes_DeadlineExceeded = (''DEADLINE_EXCEEDED'', []) \<and>
   HTTPStatusStringFromCode codes_NotFound = (''NOT_FOUND'', []) \<and>
   HTTPStatusStringFromCode codes_AlreadyExists = (''ALREADY_EXISTS'', []) \<and>
   HTTPStatusStringFromCode codes_PermissionDenied = (''PERMISSION_DENIED'', []) \<and>
   HTTPStatusStringFromCode codes_Unauthenticated = (''UNAUTHENTICATED'', []) \<and>
   HTTPStatusStringFromCode codes_ResourceExhausted = (''RESOURCE_EXHAUSTED'', []) \<and>
   HTTPStatusStringFromCode codes_FailedPrecondition = (''FAILED_PRECONDITION'', []) \<and>
   HTTPStatusStringFromCode codes_Aborted = (''ABORTED'', []) \<and>
   HTTPStatusStringFromCode codes_OutOfRange = (''OUT_OF_RANGE'', []) \<and>
   HTTPStatusStringFromCode codes_Unimplemented = (''NOT_IMPLEMENTED'', []) \<and>
   HTTPStatusStringFromCode codes_Internal = (''INTERNAL'', []) \<and>
   HTTPStatusStringFromCode codes_Unavailable = (''UNAVAILABLE'', []) \<and>
   HTTPStatusStringFromCode codes_DataLoss = (''DATA_LOSS'', [])"
  by (simp add: HTTPStatusStringFromCode_def codes_defs token_defs)

text \<open>The two exceptions, read at the numeric values of CANCELLED (1) and UNIMPLEMENTED (12).\<close>

theorem HTTPStatusStringFromCode_table_witness:
  "fst (HTTPStatusStringFromCode 1) = ''CANCELLED'' \<and>
   fst (HTTPStatusStringFromCode 12) = ''NOT_IMPLEMENTED''"
  using HTTPStatusStringFromCode_table by (simp add: codes_defs)

text \<open>
  C6. For every code above 16, that is outside the enumeration,
  \<^verbatim>\<open>HTTPStatusStringFromCode\<close> returns "INTERNAL" and \<^verbatim>\<open>HTTPStatusFromCode\<close>
  returns 500, each logging the code. Both functions return a value for every code: a
  token of the const block, and an HTTP status of the table.
\<close>

theorem translators_fallback:
  "(16 < code \<longrightarrow>
      HTTPStatusStringFromCode code = (''INTERNAL'', [UnknownCode code]) \<and>
      HTTPStatusFromCode code = (500, [UnknownCode code])) \<and>
   fst (HTTPStatusStringFromCode code) \<in>
     set [OK, Canceled, Unknown, InvalidArgument, DeadlineExceeded, NotFound, AlreadyExists,
          PermissionDenied, Unauthenticated, ResourceExhausted, FailedPrecondition, Aborted,
          OutOfRange, NotImplemented, Internal, Unavailable, DataLoss] \<and>
   fst (HTTPStatusFromCode code) \<in>
     set [200, 400, 401, 403, 404, 408, 409, 412, 500, 501, 503]"
proof -
  have "HTTPStatusStringFromCode code = (''INTERNAL'', [UnknownCode code]) \<and>
        HTTPStatusFromCode code = (500, [UnknownCode code])" if "16 < code"
  proof -
    from that have "code \<notin> {0, 1, 2, 3, 4, 5, 6, 7, 8, 9, 10, 11, 12, 13, 14, 15, 16}"
      by auto
    then show ?thesis
      by (simp add: HTTPStatusStringFromCode_def HTTPStatusFromCode_def codes_defs
          Internal_def http_StatusInternalServerError_def)
  qed
  moreover have "fst (HTTPStatusStringFromCode code) \<in>
     set [OK, Canceled, Unknown, InvalidArgument, DeadlineExceeded, NotFound, AlreadyExists,
          PermissionDenied, Unauthenticated, ResourceExhausted, FailedPrecondition, Aborted,
          OutOfRange, NotImplemented, Internal, Unavailable, DataLoss]"
    by (simp add: HTTPStatusStringFromCode_def)
  moreover have "fst (HTTPStatusFromCode code) \<in>
     set [200, 400, 401, 403, 404, 408, 409, 412, 500, 501, 503]"
    by (simp add: HTTPStatusFromCode_def http_defs)
  ultimately show ?thesis by blast
qed

text \<open>The first code outside the enumeration, and the largest \<^verbatim>\<open>uint32\<close>.\<close>

theorem translators_fallback_witness:
  "(16 :: codes_Code) < 17 \<and>
   HTTPStatusStringFromCode 17 = (''INTERNAL'', [UnknownCode 17]) \<and>
   HTTPStatusFromCode 17 = (500, [UnknownCode 17]) \<and>
   (16 :: codes_Code) < 4294967295 \<and>
   HTTPStatusStringFromCode 4294967295 = (''INTERNAL'', [UnknownCode 4294967295]) \<and>
   HTTPStatusFromCode 4294967295 = (500, [UnknownCode 4294967295])"
proof -
  have a: "(16 :: codes_Code) < 17" and b: "(16 :: codes_Code) < 4294967295"
    by simp_all
  show ?thesis
    using a b translators_fallback [of 17] translators_fallback [of 4294967295]
    by blast
qed

text \<open>
  C7. For every message and code, \<^verbatim>\<open>DefaultOtherErrorHandler\<close> writes the given
  status and then, in one write, the message followed by a newline, with the content
  type \<^verbatim>\<open>text/plain\<close>; no marshaler and no envelope take part. For "not allowed"
  and 405 the status is 405 and the body is "not allowed" with a newline.
\<close>

theorem DefaultOtherErrorHandler_plain_text:
  "filter (\<lambda>c. \<not> is_Header_op c) (new_calls w (DefaultOtherErrorHandler w r msg code))
     = [CallWriteHeader code, CallWrite (msg @ [CHR 0x0A])] \<and>
   Header (DefaultOtherErrorHandler w r msg code) ''Content-Type''
     = Some [''text/plain; charset=utf-8''] \<and>
   filter (\<lambda>c. \<not> is_Header_op c)
     (new_calls w (DefaultOtherErrorHandler w r ''not allowed'' 405))
     = [CallWriteHeader 405, CallWrite (''not allowed'' @ [CHR 0x0A])]"
  by (simp add: DefaultOtherErrorHandler_def http_Error_def Header_Set_def WriteHeader_def
      Write_def new_calls_def)

theorem DefaultOtherErrorHandler_plain_text_witness:
  "filter (\<lambda>c. \<not> is_Header_op c)
     (calls (DefaultOtherErrorHandler
        \<lparr>Header = Map.empty, calls = [], write_error = (\<lambda>b. None)\<rparr>
        \<lparr>Method = ''PATCH'', RequestURI = ''/v1/items'', RequestHeader = [],
         RequestBody = []\<rparr>
        ''not allowed'' 405))
   = [CallWriteHeader 405, CallWrite (''not allowed'' @ [CHR 0x0A])]"
  using DefaultOtherErrorHandler_plain_text
    [of "\<lparr>Header = Map.empty, calls = [], write_error = (\<lambda>b. None)\<rparr>"
        "\<lparr>Method = ''PATCH'', RequestURI = ''/v1/items'', RequestHeader = [],
          RequestBody = []\<rparr>" "''not allowed''" 405]
  by (simp add: new_calls_def)

text \<open>
  C8. When the context carries no \<^verbatim>\<open>ServerMetadata\<close>, \<^verbatim>\<open>DefaultHTTPError\<close>
  still renders: it deletes \<^verbatim>\<open>Trailer\<close>, sets \<^verbatim>\<open>Content-Type\<close>, writes one
  status and writes the body exactly once (200 and the serialized envelope, or 500 and
  the fallback when the marshaler fails). Nothing is added to the header map but
  \<^verbatim>\<open>Content-Type\<close>, no trailer name is declared and no trailer entry follows the
  body.
\<close>

theorem DefaultHTTPError_no_metadata:
  assumes "serverMetadata ctx = None"
  shows "fst (DefaultHTTPError ctx mux marshaler w r err) =
     w\<lparr>Header := ((Header w)(''Trailer'' := None))
                    (''Content-Type'' \<mapsto> [ContentType marshaler]),
       calls := calls w @
         [HeaderDel ''Trailer'', HeaderSet ''Content-Type'' (ContentType marshaler)] @
         (case Marshal marshaler (fst (DefaultHTTPError_body err)) of
            Inr buf \<Rightarrow> [CallWriteHeader 200, CallWrite buf]
          | Inl merr \<Rightarrow> [CallWriteHeader 500, CallWrite fallback])\<rparr> \<and>
     length (filter is_Write
       (new_calls w (fst (DefaultHTTPError ctx mux marshaler w r err)))) = 1 \<and>
     Header (fst (DefaultHTTPError ctx mux marshaler w r err)) ''Trailer'' = None"
proof (cases "Marshal marshaler (fst (DefaultHTTPError_body err))")
  case (Inl merr)
  show ?thesis
    using failure_result [OF Inl refl, of ctx mux w r] by (simp add: Inl new_calls_def)
next
  case (Inr buf)
  have md: "fst (ServerMetadataFromContext ctx) = \<lparr>HeaderMD = [], TrailerMD = []\<rparr>"
    using assms by (simp add: ServerMetadataFromContext_def)
  show ?thesis
    using success_result [OF Inr refl refl, of ctx mux w r]
    by (simp add: Inr md added_def declared_def new_calls_def)
qed

text \<open>
  A fresh writer and a context without metadata: the response has the one header
  \<^verbatim>\<open>Content-Type\<close> and the one body.
\<close>

theorem DefaultHTTPError_no_metadata_witness:
  "serverMetadata \<lparr>serverMetadata = None\<rparr> = None \<and>
   fst (DefaultHTTPError \<lparr>serverMetadata = None\<rparr> ()
          \<lparr>Marshal = (\<lambda>b. Inr (Status (Error b) @ '': '' @ Message (Error b))),
           ContentType = ''application/json''\<rparr>
          \<lparr>Header = Map.empty, calls = [], write_error = (\<lambda>b. None)\<rparr>
          \<lparr>Method = ''GET'', RequestURI = ''/v1/items/1'', RequestHeader = [],
           RequestBody = []\<rparr>
          \<lparr>FromError = None, ErrorString = ''boom''\<rparr>)
   = \<lparr>Header = [''Content-Type'' \<mapsto> [''application/json'']],
      calls = [HeaderDel ''Trailer'', HeaderSet ''Content-Type'' ''application/json'',
               CallWriteHeader 200, CallWrite ''UNKNOWN: boom''],
      write_error = (\<lambda>b. None)\<rparr>"
proof -
  have h: "serverMetadata \<lparr>serverMetadata = None\<rparr> = None"
    by simp
  have e: "fst (DefaultHTTPError_body \<lparr>FromError = None, ErrorString = ''boom''\<rparr>) =
     \<lparr>Error = \<lparr>Code = 2, Message = ''boom'', Status = ''UNKNOWN'', Details = []\<rparr>\<rparr>"
    by (simp add: DefaultHTTPError_body_def status_New_def Status_Code_def
        HTTPStatusStringFromCode_def codes_defs Unknown_def)
  show ?thesis
    using h DefaultHTTPError_no_metadata
      [OF h, of "()"
         "\<lparr>Marshal = (\<lambda>b. Inr (Status (Error b) @ '': '' @ Message (Error b))),
           ContentType = ''application/json''\<rparr>"
         "\<lparr>Header = Map.empty, calls = [], write_error = (\<lambda>b. None)\<rparr>"
         "\<lparr>Method = ''GET'', RequestURI = ''/v1/items/1'', RequestHeader = [],
           RequestBody = []\<rparr>"
         "\<lparr>FromError = None, ErrorString = ''boom''\<rparr>"]
    by (simp add: e)
qed

text \<open>
  C9. On every call, on either path, the first two things \<^verbatim>\<open>DefaultHTTPError\<close>
  does to the writer are to delete the \<^verbatim>\<open>Trailer\<close> header and to set
  \<^verbatim>\<open>Content-Type\<close> to the marshaler's \<^verbatim>\<open>ContentType()\<close>; the header map of
  the result is what the remaining calls make of the map so prepared.
\<close>

theorem DefaultHTTPError_first_steps:
  "take 2 (new_calls w (fst (DefaultHTTPError ctx mux marshaler w r err)))
     = [HeaderDel ''Trailer'', HeaderSet ''Content-Type'' (ContentType marshaler)] \<and>
   Header (fst (DefaultHTTPError ctx mux marshaler w r err))
     = fold apply_call
         (drop 2 (new_calls w (fst (DefaultHTTPError ctx mux marshaler w r err))))
         (((Header w)(''Trailer'' := None))(''Content-Type'' \<mapsto> [ContentType marshaler]))"
proof (cases "Marshal marshaler (fst (DefaultHTTPError_body err))")
  case (Inl merr)
  show ?thesis
    using failure_result [OF Inl refl, of ctx mux w r] by (simp add: new_calls_def)
next
  case (Inr buf)
  show ?thesis
    using success_result [OF Inr refl refl, of ctx mux w r] by (simp add: new_calls_def)
qed

text \<open>
  A writer that had declared a trailer, once with a marshaler that fails and once with
  one that succeeds: the first two calls are the same.
\<close>

theorem DefaultHTTPError_first_steps_witness:
  "take 2 (calls (fst (DefaultHTTPError \<lparr>serverMetadata = None\<rparr> ()
          \<lparr>Marshal = (\<lambda>b. Inl ''cannot marshal''), ContentType = ''application/json''\<rparr>
          \<lparr>Header = [''Trailer'' \<mapsto> [''X-Old'']], calls = [],
           write_error = (\<lambda>b. None)\<rparr>
          \<lparr>Method = ''GET'', RequestURI = ''/v1/items/1'', RequestHeader = [],
           RequestBody = []\<rparr>
          \<lparr>FromError = None, ErrorString = ''boom''\<rparr>)))
   = [HeaderDel ''Trailer'', HeaderSet ''Content-Type'' ''application/json''] \<and>
   take 2 (calls (fst (DefaultHTTPError \<lparr>serverMetadata = None\<rparr> ()
          \<lparr>Marshal = (\<lambda>b. Inr (Message (Error b))), ContentType = ''application/json''\<rparr>
          \<lparr>Header = [''Trailer'' \<mapsto> [''X-Old'']], calls = [],
           write_error = (\<lambda>b. None)\<rparr>
          \<lparr>Method = ''GET'', RequestURI = ''/v1/items/1'', RequestHeader = [],
           RequestBody = []\<rparr>
          \<lparr>FromError = None, ErrorString = ''boom''\<rparr>)))
   = [HeaderDel ''Trailer'', HeaderSet ''Content-Type'' ''application/json'']"
  using DefaultHTTPError_first_steps
    [of "\<lparr>Header = [''Trailer'' \<mapsto> [''X-Old'']], calls = [], write_error = (\<lambda>b. None)\<rparr>"
        "\<lparr>serverMetadata = None\<rparr>" "()"
        "\<lparr>Marshal = (\<lambda>b. Inl ''cannot marshal''), ContentType = ''application/json''\<rparr>"
        "\<lparr>Method = ''GET'', RequestURI = ''/v1/items/1'', RequestHeader = [],
          RequestBody = []\<rparr>"
        "\<lparr>FromError = None, ErrorString = ''boom''\<rparr>"]
    DefaultHTTPError_first_steps
    [of "\<lparr>Header = [''Trailer'' \<mapsto> [''X-Old'']], calls = [], write_error = (\<lambda>b. None)\<rparr>"
        "\<lparr>serverMetadata = None\<rparr>" "()"
        "\<lparr>Marshal = (\<lambda>b. Inr (Message (Error b))), ContentType = ''application/json''\<rparr>"
        "\<lparr>Method = ''GET'', RequestURI = ''/v1/items/1'', RequestHeader = [],
          RequestBody = []\<rparr>"
        "\<lparr>FromError = None, ErrorString = ''boom''\<rparr>"]
  by (simp add: new_calls_def)

text \<open>
  C10. Neither \<^verbatim>\<open>DefaultHTTPError\<close> nor \<^verbatim>\<open>DefaultOtherErrorHandler\<close> reads its
  request: two calls that differ in the request only give the same writer (and the
  same log).
\<close>

theorem handlers_ignore_request:
  "DefaultHTTPError ctx mux marshaler w r1 err = DefaultHTTPError ctx mux marshaler w r2 err \<and>
   DefaultOtherErrorHandler w r1 msg code = DefaultOtherErrorHandler w r2 msg code"
  by (simp add: DefaultHTTPError_def DefaultOtherErrorHandler_def)

theorem handlers_ignore_request_witness:
  "DefaultHTTPError \<lparr>serverMetadata = None\<rparr> ()
     \<lparr>Marshal = (\<lambda>b. Inr (Message (Error b))), ContentType = ''application/json''\<rparr>
     \<lparr>Header = Map.empty, calls = [], write_error = (\<lambda>b. None)\<rparr>
     \<lparr>Method = ''GET'', RequestURI = ''/a'', RequestHeader = [], RequestBody = []\<rparr>
     \<lparr>FromError = None, ErrorString = ''boom''\<rparr>
   = DefaultHTTPError \<lparr>serverMetadata = None\<rparr> ()
     \<lparr>Marshal = (\<lambda>b. Inr (Message (Error b))), ContentType = ''application/json''\<rparr>
     \<lparr>Header = Map.empty, calls = [], write_error = (\<lambda>b. None)\<rparr>
     \<lparr>Method = ''POST'', RequestURI = ''/b'',
      RequestHeader = [(''Authorization'', [''secret''])], RequestBody = ''x''\<rparr>
     \<lparr>FromError = None, ErrorString = ''boom''\<rparr> \<and>
   DefaultOtherErrorHandler \<lparr>Header = Map.empty, calls = [], write_error = (\<lambda>b. None)\<rparr>
     \<lparr>Method = ''GET'', RequestURI = ''/a'', RequestHeader = [], RequestBody = []\<rparr>
     ''not found'' 404
   = DefaultOtherErrorHandler \<lparr>Header = Map.empty, calls = [], write_error = (\<lambda>b. None)\<rparr>
     \<lparr>Method = ''POST'', RequestURI = ''/b'',
      RequestHeader = [(''Authorization'', [''secret''])], RequestBody = ''x''\<rparr>
     ''not found'' 404"
  by (rule handlers_ignore_request)

end
